theory Spec2Isabelle
  imports Main "HOL-Library.AList"
begin

section \<open>JavaScript values\<close>

text \<open>
  The SDK (\<^verbatim>\<open>src/shieldIntegration.js\<close>) works on dynamically typed values: the
  parsed JSON body of a response, the caller's arguments, the objects it rejects with.
  \<open>jsval\<close> is the part of JavaScript's value space these can hold. An object is its
  list of own properties in insertion order. An array carries, besides its elements,
  the own properties set on it by name (the SDK sets \<^verbatim>\<open>rateLimit\<close> on any truthy
  value whose \<^verbatim>\<open>typeof\<close> is \<^verbatim>\<open>'object'\<close>, arrays included). Numbers are the
  integers, with \<open>JNaN\<close> for what \<^verbatim>\<open>parseInt\<close> returns on a string without digits;
  the SDK does no arithmetic on a body's numbers, it only tests them for truthiness.
  Doubles beyond the integers exact in 64-bit floating point are outside the model.
\<close>

datatype jsval =
    JUndefined
  | JNull
  | JBool bool
  | JNum int
  | JNaN
  | JStr string
  | JArr "jsval list" "(string \<times> jsval) list"
  | JObj "(string \<times> jsval) list"

text \<open>\<^verbatim>\<open>!v\<close> is \<open>\<not> truthy v\<close>.\<close>

fun truthy :: "jsval \<Rightarrow> bool" where
  "truthy JUndefined = False"
| "truthy JNull = False"
| "truthy (JBool b) = b"
| "truthy (JNum n) = (n \<noteq> 0)"
| "truthy JNaN = False"
| "truthy (JStr s) = (s \<noteq> [])"
| "truthy (JArr xs ps) = True"
| "truthy (JObj ps) = True"

text \<open>\<^verbatim>\<open>a || b\<close>\<close>

definition js_or :: "jsval \<Rightarrow> jsval \<Rightarrow> jsval" where
  "js_or a b = (if truthy a then a else b)"

text \<open>\<^verbatim>\<open>typeof v === 'object'\<close>\<close>

fun typeof_object :: "jsval \<Rightarrow> bool" where
  "typeof_object JNull = True"
| "typeof_object (JArr xs ps) = True"
| "typeof_object (JObj ps) = True"
| "typeof_object v = False"

text \<open>
  \<^verbatim>\<open>v.k\<close> and \<^verbatim>\<open>v[k]\<close> for the property names the SDK reads (\<^verbatim>\<open>success\<close>,
  \<^verbatim>\<open>data\<close>, \<^verbatim>\<open>error\<close>, \<^verbatim>\<open>message\<close> and the five required fields of a report):
  none of them is an array index, \<^verbatim>\<open>length\<close> or a property of a built-in prototype,
  so the read is the own property or \<^verbatim>\<open>undefined\<close>. Reading a property of
  \<^verbatim>\<open>null\<close> or \<^verbatim>\<open>undefined\<close> throws a TypeError, whose message is the \<open>Inl\<close>.
\<close>

definition own_property :: "(string \<times> jsval) list \<Rightarrow> string \<Rightarrow> jsval" where
  "own_property ps k = (case map_of ps k of Some v \<Rightarrow> v | None \<Rightarrow> JUndefined)"

fun get_prop :: "jsval \<Rightarrow> string \<Rightarrow> string + jsval" where
  "get_prop JUndefined k = Inl (''Cannot read properties of undefined (reading '' @ [CHR 0x27] @ k @ [CHR 0x27] @ '')'')"
| "get_prop JNull k = Inl (''Cannot read properties of null (reading '' @ [CHR 0x27] @ k @ [CHR 0x27] @ '')'')"
| "get_prop (JObj ps) k = Inr (own_property ps k)"
| "get_prop (JArr xs ps) k = Inr (own_property ps k)"
| "get_prop v k = Inr JUndefined"

text \<open>
  \<^verbatim>\<open>v.k = x\<close> on an object or an array: the property is replaced where it is, or
  added last.
\<close>

fun set_prop :: "jsval \<Rightarrow> string \<Rightarrow> jsval \<Rightarrow> jsval" where
  "set_prop (JObj ps) k x = JObj (AList.update k x ps)"
| "set_prop (JArr xs ps) k x = JArr xs (AList.update k x ps)"
| "set_prop v k x = v"

subsection \<open>Numbers to strings\<close>

definition digit_char :: "nat \<Rightarrow> char" where
  "digit_char d = char_of (48 + d)"

fun show_nat :: "nat \<Rightarrow> string" where
  "show_nat n = (if n < 10 then [digit_char n] else show_nat (n div 10) @ [digit_char (n mod 10)])"

definition show_int :: "int \<Rightarrow> string" where
  "show_int i = (if i < 0 then CHR ''-'' # show_nat (nat (- i)) else show_nat (nat i))"

text \<open>
  A template literal and \<^verbatim>\<open>new Error(v)\<close> turn \<open>v\<close> into a string with the
  language's ToString. It throws a TypeError (the \<open>Inl\<close>) on an object whose own
  \<^verbatim>\<open>toString\<close> property hides the prototype's method: a parsed JSON value is never
  callable. An array is its elements joined with commas, \<^verbatim>\<open>null\<close> and
  \<^verbatim>\<open>undefined\<close> elements as the empty string. Integers of 22 digits and more,
  which JavaScript prints with an exponent, are outside the model.
\<close>

fun join_strings :: "(string + string) list \<Rightarrow> string + string" where
  "join_strings [] = Inr []"
| "join_strings [x] = x"
| "join_strings (x # y # ys) =
     (case x of Inl e \<Rightarrow> Inl e
      | Inr s \<Rightarrow> (case join_strings (y # ys) of Inl e \<Rightarrow> Inl e | Inr t \<Rightarrow> Inr (s @ '','' @ t)))"

fun ToString :: "jsval \<Rightarrow> string + string" where
  "ToString JUndefined = Inr ''undefined''"
| "ToString JNull = Inr ''null''"
| "ToString (JBool b) = Inr (if b then ''true'' else ''false'')"
| "ToString (JNum n) = Inr (show_int n)"
| "ToString JNaN = Inr ''NaN''"
| "ToString (JStr s) = Inr s"
| "ToString (JObj ps) =
     (if map_of ps ''toString'' \<noteq> None then Inl ''Cannot convert object to primitive value''
      else Inr ''[object Object]'')"
| "ToString (JArr xs ps) =
     (if map_of ps ''toString'' \<noteq> None then Inl ''Cannot convert object to primitive value''
      else if map_of ps ''join'' \<noteq> None then Inr ''[object Array]''
      else join_strings (map (\<lambda>x. if x = JUndefined \<or> x = JNull then Inr [] else ToString x) xs))"

subsection \<open>\<^verbatim>\<open>parseInt\<close>\<close>

text \<open>
  \<^verbatim>\<open>parseInt(s)\<close> with no radix, on a header value (a string of one-byte
  characters): leading white space is skipped, a sign is read, \<^verbatim>\<open>0x\<close> selects
  radix 16, and the longest prefix of digits is the value; no digit gives \<^verbatim>\<open>NaN\<close>.
\<close>

definition StrWhiteSpaceChar :: "char \<Rightarrow> bool" where
  "StrWhiteSpaceChar c = (of_char c \<in> {9, 10, 11, 12, 13, 32, 160 :: nat})"

definition digit_value :: "char \<Rightarrow> int option" where
  "digit_value c =
     (let n = (of_char c :: int) in
      if 48 \<le> n \<and> n \<le> 57 then Some (n - 48)
      else if 97 \<le> n \<and> n \<le> 122 then Some (n - 87)
      else if 65 \<le> n \<and> n \<le> 90 then Some (n - 55)
      else None)"

fun radix_digits :: "int \<Rightarrow> string \<Rightarrow> int list" where
  "radix_digits R [] = []"
| "radix_digits R (c # cs) =
     (case digit_value c of
        None \<Rightarrow> []
      | Some d \<Rightarrow> if d < R then d # radix_digits R cs else [])"

definition parseInt :: "string \<Rightarrow> jsval" where
  "parseInt inputString =
     (let S = dropWhile StrWhiteSpaceChar inputString;
          negative = (take 1 S = ''-'');
          S1 = (if take 1 S = ''+'' \<or> take 1 S = ''-'' then drop 1 S else S);
          hex = (take 2 S1 = ''0x'' \<or> take 2 S1 = ''0X'');
          R = (if hex then 16 else 10);
          Z = radix_digits R (if hex then drop 2 S1 else S1);
          mathInt = foldl (\<lambda>a d. a * R + d) 0 Z
      in if Z = [] then JNaN
         else JNum (if negative then - mathInt else mathInt))"

subsection \<open>\<^verbatim>\<open>new Date(ms).toISOString()\<close>\<close>

text \<open>
  The time value of a Date is an integer number of milliseconds of absolute value at
  most 8640000000000000; beyond it, and on \<^verbatim>\<open>NaN\<close>, the Date is invalid and
  \<^verbatim>\<open>toISOString\<close> throws a RangeError. The calendar date of a day number is
  computed in the proleptic Gregorian calendar, in eras of 400 years starting on
  1 March; years outside 0..9999 are written with a sign and six digits.
\<close>

definition pad :: "nat \<Rightarrow> nat \<Rightarrow> string" where
  "pad w n = replicate (w - length (show_nat n)) (CHR ''0'') @ show_nat n"

definition iso_string :: "int \<Rightarrow> string" where
  "iso_string tv =
     (let day = tv div 86400000;
          ms = tv mod 86400000;
          z = day + 719468;
          era = z div 146097;
          doe = z mod 146097;
          yoe = (doe - doe div 1460 + doe div 36524 - doe div 146096) div 365;
          doy = doe - (365 * yoe + yoe div 4 - yoe div 100);
          mp = (5 * doy + 2) div 153;
          d = doy - (153 * mp + 2) div 5 + 1;
          m = (if mp < 10 then mp + 3 else mp - 9);
          y = yoe + era * 400 + (if m \<le> 2 then 1 else 0);
          year = (if 0 \<le> y \<and> y \<le> 9999 then pad 4 (nat y)
                  else (if y < 0 then ''-'' else ''+'') @ pad 6 (nat \<bar>y\<bar>))
      in year @ ''-'' @ pad 2 (nat m) @ ''-'' @ pad 2 (nat d) @ ''T''
           @ pad 2 (nat (ms div 3600000)) @ '':'' @ pad 2 (nat (ms div 60000 mod 60)) @ '':''
           @ pad 2 (nat (ms div 1000 mod 60)) @ ''.'' @ pad 3 (nat (ms mod 1000)) @ ''Z'')"

text \<open>\<^verbatim>\<open>new Date(n * 1000).toISOString()\<close> for the number \<open>n\<close> that \<^verbatim>\<open>parseInt\<close> gave.\<close>

fun toISOString :: "jsval \<Rightarrow> string + string" where
  "toISOString (JNum n) =
     (if \<bar>n * 1000\<bar> \<le> 8640000000000000 then Inr (iso_string (n * 1000))
      else Inl ''Invalid time value'')"
| "toISOString v = Inl ''Invalid time value''"

section \<open>The client\<close>

text \<open>
  The fields the constructor of \<^verbatim>\<open>ShieldIntegration\<close> sets, and \<^verbatim>\<open>_lastRateLimit\<close>,
  the property \<^verbatim>\<open>getRateLimit\<close> reads: the constructor does not set it, so it starts
  \<^verbatim>\<open>undefined\<close>. The timeout is a number (it is printed into the timeout message).
\<close>

record client =
  apiKey :: jsval
  apiUrl :: jsval
  timeout :: int
  debug :: jsval
  version :: string
  lastRateLimit :: jsval

text \<open>The \<^verbatim>\<open>options\<close> argument; an option that is not given is \<^verbatim>\<open>undefined\<close>.\<close>

record options =
  opt_apiUrl :: jsval
  opt_timeout :: "int option"
  opt_debug :: jsval

text \<open>
  What a call does to the outside: a line on the console, or an HTTP request handed to
  Node's \<^verbatim>\<open>http\<close>/\<^verbatim>\<open>https\<close> client. The request is what \<^verbatim>\<open>_request\<close> builds: method,
  endpoint and base URL, headers, timeout, and the body written (the value that
  \<^verbatim>\<open>JSON.stringify\<close> serialises), if one is.
\<close>

record request =
  req_method :: string
  req_endpoint :: string
  req_base :: jsval
  req_headers :: "(string \<times> jsval) list"
  req_timeout :: int
  req_body :: "jsval option"

datatype effect = ConsoleLog string jsval | HttpRequest request

text \<open>
  The state a method runs in: the client object (\<^verbatim>\<open>this\<close>) and the effects so far.
\<close>

record sdk =
  self :: client
  trace :: "effect list"

definition http_requests :: "sdk \<Rightarrow> request list" where
  "http_requests s = concat (map (\<lambda>e. case e of HttpRequest r \<Rightarrow> [r] | ConsoleLog m d \<Rightarrow> []) (trace s))"

text \<open>
  The one terminal event of a request: a complete response (status code, headers with
  lower-case names, body), an \<^verbatim>\<open>'error'\<close> event, or a \<^verbatim>\<open>'timeout'\<close> event. The base
  URL is taken to be an absolute URL and the API key a legal header value, so that
  building the request does not throw.
\<close>

datatype outcome =
    Response int "(string \<times> string) list" string
  | NetworkError string
  | Timeout

text \<open>
  The runtime and the network, which are not part of the repository: \<^verbatim>\<open>JSON.parse\<close>
  (\<open>Inl\<close> is the message of the SyntaxError), the \<^verbatim>\<open>href\<close> of \<^verbatim>\<open>new URL(endpoint, base)\<close>,
  and what happens to a request.
\<close>

record world =
  JSON_parse :: "string \<Rightarrow> string + jsval"
  url_href :: "string \<Rightarrow> jsval \<Rightarrow> string"
  transport :: "request \<Rightarrow> outcome"

text \<open>What is thrown: \<^verbatim>\<open>new Error(message)\<close>, or a TypeError of the runtime.\<close>

datatype exn = Error string | TypeError string

text \<open>
  The plain object \<^verbatim>\<open>_request\<close> rejects with; \<^verbatim>\<open>statusCode\<close> and \<^verbatim>\<open>rateLimit\<close> are
  the properties that some of its rejections do not have.
\<close>

record rejection =
  statusCode :: "int option"
  message :: jsval
  error :: jsval
  rateLimit :: "(string \<times> jsval) list option"

subsection \<open>\<^verbatim>\<open>constructor\<close> and \<^verbatim>\<open>_log\<close>\<close>

definition u_log :: "string \<Rightarrow> jsval \<Rightarrow> sdk \<Rightarrow> sdk" where
  "u_log msg data s =
     (if truthy (debug (self s))
      then s\<lparr>trace := trace s @ [ConsoleLog (''[Shield SDK] '' @ msg) data]\<rparr>
      else s)"

definition or_default :: "int option \<Rightarrow> int \<Rightarrow> int" where
  "or_default v d = (case v of None \<Rightarrow> d | Some n \<Rightarrow> if n \<noteq> 0 then n else d)"

definition constructor :: "jsval \<Rightarrow> options \<Rightarrow> exn + sdk" where
  "constructor key opts =
     (if \<not> truthy key
      then Inl (Error ''Shield API key is required. Get one at https://elysium-online.xyz/profile'')
      else
        let c = \<lparr>apiKey = key,
                 apiUrl = js_or (opt_apiUrl opts) (JStr ''https://elysium-online.xyz/api''),
                 timeout = or_default (opt_timeout opts) 10000,
                 debug = js_or (opt_debug opts) (JBool False),
                 version = ''1.0.0'',
                 lastRateLimit = JUndefined\<rparr>
        in Inr (u_log ''Shield Integration initialized'' (JObj [(''apiUrl'', apiUrl c)])
                  \<lparr>self = c, trace = []\<rparr>))"

subsection \<open>\<^verbatim>\<open>_request\<close>\<close>

text \<open>
  A header of the response read as a condition: \<^verbatim>\<open>if (res.headers[name])\<close> holds
  when the header is there and its value is not the empty string.
\<close>

definition header :: "(string \<times> string) list \<Rightarrow> string \<Rightarrow> string option" where
  "header headers name =
     (case map_of headers name of
        None \<Rightarrow> None
      | Some v \<Rightarrow> if v \<noteq> [] then Some v else None)"

text \<open>
  Lines 83 to 98: the \<^verbatim>\<open>rateLimit\<close> object, built from the four headers. Three of
  the four blocks have one shape: when the header is there, its \<^verbatim>\<open>parseInt\<close> is stored
  under a key.
\<close>

definition set_from_header ::
  "(string \<times> string) list \<Rightarrow> string \<Rightarrow> string \<Rightarrow> (string \<times> jsval) list \<Rightarrow> (string \<times> jsval) list" where
  "set_from_header headers name key rl =
     (case header headers name of
        None \<Rightarrow> rl
      | Some v \<Rightarrow> AList.update key (parseInt v) rl)"

text \<open>
  The block of the reset header (lines 91 to 95). The \<open>Inl\<close> is the message of the
  RangeError that \<^verbatim>\<open>toISOString\<close> throws on an invalid date; \<^verbatim>\<open>resetAt\<close> is assigned
  before \<^verbatim>\<open>resetTimestamp\<close>.
\<close>

definition set_reset ::
  "(string \<times> string) list \<Rightarrow> (string \<times> jsval) list \<Rightarrow> string + (string \<times> jsval) list" where
  "set_reset headers rl =
     (case header headers ''x-ratelimit-reset'' of
        None \<Rightarrow> Inr rl
      | Some v \<Rightarrow>
          (let resetTimestamp = parseInt v in
           case toISOString resetTimestamp of
             Inl e \<Rightarrow> Inl e
           | Inr resetAt \<Rightarrow>
               Inr (AList.update ''resetTimestamp'' resetTimestamp
                     (AList.update ''resetAt'' (JStr resetAt) rl))))"

definition extract_rateLimit :: "(string \<times> string) list \<Rightarrow> string + (string \<times> jsval) list" where
  "extract_rateLimit headers =
     (let rl1 = set_from_header headers ''x-ratelimit-limit'' ''limit'' [];
          rl2 = set_from_header headers ''x-ratelimit-remaining'' ''remaining'' rl1
      in case set_reset headers rl2 of
           Inl e \<Rightarrow> Inl e
         | Inr rl3 \<Rightarrow> Inr (set_from_header headers ''retry-after'' ''retryAfter'' rl3))"

text \<open>The rejection of the \<^verbatim>\<open>catch\<close> block of the \<^verbatim>\<open>'end'\<close> handler (lines 117 to 123).\<close>

definition parse_failure :: "int \<Rightarrow> string \<Rightarrow> rejection" where
  "parse_failure status e =
     \<lparr>statusCode = Some status, message = JStr ''Failed to parse response'',
      error = JStr e, rateLimit = None\<rparr>"

text \<open>
  Lines 100 to 103: the \<^verbatim>\<open>rateLimit\<close> object is set on the parsed body when the body
  is an object or an array and the object has a key.
\<close>

definition attach_rateLimit :: "jsval \<Rightarrow> (string \<times> jsval) list \<Rightarrow> jsval" where
  "attach_rateLimit parsed rl =
     (if truthy parsed \<and> typeof_object parsed \<and> length rl > 0
      then set_prop parsed ''rateLimit'' (JObj rl) else parsed)"

text \<open>
  Lines 110 to 115: the object of the error branch. Reading \<^verbatim>\<open>response.message\<close> of a
  \<^verbatim>\<open>null\<close> body throws inside the \<^verbatim>\<open>try\<close>, and the \<^verbatim>\<open>catch\<close> rejects in its place.
\<close>

definition error_rejection :: "int \<Rightarrow> jsval \<Rightarrow> (string \<times> jsval) list \<Rightarrow> rejection" where
  "error_rejection status response rl =
     (case get_prop response ''message'' of
        Inl e \<Rightarrow> parse_failure status e
      | Inr m \<Rightarrow>
          (case get_prop response ''error'' of
             Inl e \<Rightarrow> parse_failure status e
           | Inr er \<Rightarrow>
               \<lparr>statusCode = Some status,
                message = js_or (js_or m er) (JStr ''Request failed''),
                error = js_or er (JStr ''Unknown error''),
                rateLimit = Some rl\<rparr>))"

text \<open>
  The \<^verbatim>\<open>'end'\<close> handler (lines 78 to 124). Everything from \<^verbatim>\<open>JSON.parse\<close> on is
  inside the \<^verbatim>\<open>try\<close>: a SyntaxError of the parser, a RangeError of \<^verbatim>\<open>toISOString\<close> and
  a TypeError of \<^verbatim>\<open>response.message\<close> on a \<^verbatim>\<open>null\<close> body all end in the \<^verbatim>\<open>catch\<close>.
\<close>

definition on_end :: "world \<Rightarrow> int \<Rightarrow> (string \<times> string) list \<Rightarrow> string \<Rightarrow> sdk \<Rightarrow> (rejection + jsval) \<times> sdk" where
  "on_end w status headers body s =
     (case JSON_parse w body of
        Inl e \<Rightarrow> (Inl (parse_failure status e), s)
      | Inr parsed \<Rightarrow>
          (case extract_rateLimit headers of
             Inl e \<Rightarrow> (Inl (parse_failure status e), s)
           | Inr rl \<Rightarrow>
               (let response = attach_rateLimit parsed rl
                in if 200 \<le> status \<and> status < 300
                   then (Inr response,
                         u_log ''Request successful''
                           (JObj [(''status'', JNum status), (''rateLimit'', JObj rl)]) s)
                   else (Inl (error_rejection status response rl),
                         u_log ''Request failed''
                           (JObj [(''status'', JNum status), (''response'', response)]) s))))"

text \<open>
  The request of lines 55 to 67 and 143 to 145: the URL, the \<^verbatim>\<open>options\<close> object, and
  the body, written when \<^verbatim>\<open>data\<close> is truthy.
\<close>

definition build_request :: "client \<Rightarrow> string \<Rightarrow> string \<Rightarrow> jsval \<Rightarrow> request" where
  "build_request c method endpoint data =
     \<lparr>req_method = method, req_endpoint = endpoint, req_base = apiUrl c,
      req_headers = [(''Content-Type'', JStr ''application/json''),
                     (''x-api-key'', apiKey c),
                     (''User-Agent'', JStr (''Elysium-Shield-SDK/'' @ version c))],
      req_timeout = timeout c,
      req_body = (if truthy data then Some data else None)\<rparr>"

definition u_request :: "world \<Rightarrow> string \<Rightarrow> string \<Rightarrow> jsval \<Rightarrow> sdk \<Rightarrow> (rejection + jsval) \<times> sdk" where
  "u_request w method endpoint data s =
     (let c = self s;
          req = build_request c method endpoint data;
          s1 = u_log (method @ '' '' @ url_href w endpoint (apiUrl c)) data s;
          s2 = s1\<lparr>trace := trace s1 @ [HttpRequest req]\<rparr>
      in case transport w req of
           Response status headers body \<Rightarrow> on_end w status headers body s2
         | NetworkError e \<Rightarrow>
             (Inl \<lparr>statusCode = None, message = JStr ''Network error'', error = JStr e,
                   rateLimit = None\<rparr>,
              u_log ''Request error'' (JObj [(''error'', JStr e)]) s2)
         | Timeout \<Rightarrow>
             (Inl \<lparr>statusCode = None, message = JStr ''Request timeout'',
                   error = JStr (''Request exceeded '' @ show_int (timeout c) @ ''ms''),
                   rateLimit = None\<rparr>, s2))"

subsection \<open>The public methods\<close>

definition getRateLimit :: "sdk \<Rightarrow> jsval" where
  "getRateLimit s = js_or (lastRateLimit (self s)) JNull"

text \<open>
  What a \<^verbatim>\<open>catch (error)\<close> of a public method receives: an exception thrown inside
  its \<^verbatim>\<open>try\<close>, or the object \<^verbatim>\<open>_request\<close> rejected with. The handlers read
  \<^verbatim>\<open>error.message\<close> and nothing else.
\<close>

datatype thrown = Thrown exn | Rejected rejection

fun message_of :: "thrown \<Rightarrow> jsval" where
  "message_of (Thrown (Error m)) = JStr m"
| "message_of (Thrown (TypeError m)) = JStr m"
| "message_of (Rejected r) = message r"

text \<open>\<^verbatim>\<open>throw new Error(v)\<close>: the Error, or the TypeError of turning \<open>v\<close> into a string.\<close>

definition new_Error :: "jsval \<Rightarrow> exn" where
  "new_Error v = (case ToString v of Inl e \<Rightarrow> TypeError e | Inr m \<Rightarrow> Error m)"

text \<open>
  The first statement of each \<^verbatim>\<open>try\<close> after the request:
  \<^verbatim>\<open>if (!response.success) throw new Error(response.error || fallback)\<close>.
\<close>

definition unless_success :: "string \<Rightarrow> jsval \<Rightarrow> thrown + jsval" where
  "unless_success fallback response =
     (case get_prop response ''success'' of
        Inl e \<Rightarrow> Inl (Thrown (TypeError e))
      | Inr ok \<Rightarrow>
          if \<not> truthy ok
          then (case get_prop response ''error'' of
                  Inl e \<Rightarrow> Inl (Thrown (TypeError e))
                | Inr er \<Rightarrow> Inl (Thrown (new_Error (js_or er (JStr fallback)))))
          else Inr response)"

text \<open>
  Each \<^verbatim>\<open>catch\<close>: \<^verbatim>\<open>throw new Error(`prefix: ${error.message}`)\<close>. The message of a
  rejection is whatever the body's \<^verbatim>\<open>message\<close> or \<^verbatim>\<open>error\<close> held.
\<close>

definition rethrow :: "string \<Rightarrow> thrown \<Rightarrow> exn" where
  "rethrow prefix t =
     (case ToString (message_of t) of
        Inl e \<Rightarrow> TypeError e
      | Inr m \<Rightarrow> Error (prefix @ '': '' @ m))"

definition checkUser :: "world \<Rightarrow> jsval \<Rightarrow> sdk \<Rightarrow> (exn + jsval) \<times> sdk" where
  "checkUser w userId s =
     (if \<not> truthy userId then (Inl (Error ''User ID is required''), s)
      else
        (case u_request w ''POST'' ''/api/v1/shield/check'' (JObj [(''userId'', userId)]) s of
           (r, s') \<Rightarrow>
             (let tried =
                    (case r of
                       Inl rej \<Rightarrow> Inl (Rejected rej)
                     | Inr response \<Rightarrow>
                         (case unless_success ''Failed to check user'' response of
                            Inl t \<Rightarrow> Inl t
                          | Inr resp \<Rightarrow>
                              (case get_prop resp ''data'' of
                                 Inl e \<Rightarrow> Inl (Thrown (TypeError e))
                               | Inr d \<Rightarrow> Inr d)))
              in case tried of
                   Inl t \<Rightarrow> (Inl (rethrow ''Failed to check user'' t), s')
                 | Inr d \<Rightarrow> (Inr d, s'))))"

definition required :: "string list" where
  "required = [''userId'', ''guildId'', ''actionType'', ''reason'', ''moderatorId'']"

definition validActions :: "string list" where
  "validActions = [''ban'', ''kick'', ''timeout'', ''mute'', ''warn'', ''unban'', ''untimeout'',
                   ''unmute'', ''remove_warning'']"

text \<open>The loop over \<^verbatim>\<open>required\<close>: the first field that is missing or falsy throws.\<close>

fun check_required :: "jsval \<Rightarrow> string list \<Rightarrow> exn option" where
  "check_required actionData [] = None"
| "check_required actionData (field # rest) =
     (case get_prop actionData field of
        Inl e \<Rightarrow> Some (TypeError e)
      | Inr v \<Rightarrow>
          if \<not> truthy v then Some (Error (field @ '' is required''))
          else check_required actionData rest)"

text \<open>\<^verbatim>\<open>validActions.join(', ')\<close>\<close>

fun join_with :: "string \<Rightarrow> string list \<Rightarrow> string" where
  "join_with sep [] = []"
| "join_with sep [x] = x"
| "join_with sep (x # y # ys) = x @ sep @ join_with sep (y # ys)"

text \<open>\<^verbatim>\<open>validActions.includes(v)\<close>: only a string is equal to a string.\<close>

definition array_includes :: "string list \<Rightarrow> jsval \<Rightarrow> bool" where
  "array_includes xs v = (case v of JStr a \<Rightarrow> a \<in> set xs | _ \<Rightarrow> False)"

definition reportAction :: "world \<Rightarrow> jsval \<Rightarrow> sdk \<Rightarrow> (exn + jsval) \<times> sdk" where
  "reportAction w actionData s =
     (case check_required actionData required of
        Some e \<Rightarrow> (Inl e, s)
      | None \<Rightarrow>
          (case get_prop actionData ''actionType'' of
             Inl e \<Rightarrow> (Inl (TypeError e), s)
           | Inr actionType \<Rightarrow>
               if \<not> array_includes validActions actionType
               then (Inl (Error (''Invalid action type. Must be one of: ''
                                  @ join_with '', '' validActions)), s)
               else
                 (case u_request w ''POST'' ''/api/v1/shield/report-action'' actionData s of
                    (r, s') \<Rightarrow>
                      (let tried =
                             (case r of
                                Inl rej \<Rightarrow> Inl (Rejected rej)
                              | Inr response \<Rightarrow> unless_success ''Failed to report action'' response)
                       in case tried of
                            Inl t \<Rightarrow> (Inl (rethrow ''Failed to report action'' t), s')
                          | Inr response \<Rightarrow> (Inr response, s')))))"

definition getNetworkStats :: "world \<Rightarrow> sdk \<Rightarrow> (exn + jsval) \<times> sdk" where
  "getNetworkStats w s =
     (case u_request w ''GET'' ''/api/v1/shield/stats'' JNull s of
        (r, s') \<Rightarrow>
          (let tried =
                 (case r of
                    Inl rej \<Rightarrow> Inl (Rejected rej)
                  | Inr response \<Rightarrow>
                      (case unless_success ''Failed to get network stats'' response of
                         Inl t \<Rightarrow> Inl t
                       | Inr resp \<Rightarrow>
                           (case get_prop resp ''data'' of
                              Inl e \<Rightarrow> Inl (Thrown (TypeError e))
                            | Inr d \<Rightarrow> Inr d)))
           in case tried of
                Inl t \<Rightarrow> (Inl (rethrow ''Failed to get network stats'' t), s')
              | Inr d \<Rightarrow> (Inr d, s')))"

definition verifyApiKey :: "world \<Rightarrow> sdk \<Rightarrow> bool \<times> sdk" where
  "verifyApiKey w s =
     (case getNetworkStats w s of
        (Inr stats, s') \<Rightarrow> (True, s')
      | (Inl e, s') \<Rightarrow> (False, s'))"

section \<open>Example runs\<close>

text \<open>
  Concrete inputs for the properties below: options, a constructed client, response
  bodies with what \<^verbatim>\<open>JSON.parse\<close> makes of them, and worlds that answer every
  request with one fixed response.
\<close>

definition example_options :: options where
  "example_options = \<lparr>opt_apiUrl = JUndefined, opt_timeout = None, opt_debug = JUndefined\<rparr>"

definition example_sdk :: sdk where
  "example_sdk =
     \<lparr>self = \<lparr>apiKey = JStr ''shield_key'', apiUrl = JStr ''https://elysium-online.xyz/api'',
               timeout = 10000, debug = JBool False, version = ''1.0.0'',
               lastRateLimit = JUndefined\<rparr>,
      trace = []\<rparr>"

definition body_stats :: string where
  \<open>body_stats = ''{"success":true,"data":{"participatingServers":10}}''\<close>

definition body_rate_limited :: string where
  \<open>body_rate_limited = ''{"error":"Rate limit exceeded"}''\<close>

definition body_unauthorized :: string where
  \<open>body_unauthorized = ''{"success":false,"message":"Invalid API key","error":"Unauthorized"}''\<close>

definition body_not_found :: string where
  \<open>body_not_found = ''{"success":false,"error":"User not found"}''\<close>

definition body_check :: string where
  \<open>body_check = ''{"success":true,"data":{"userId":"123456789","flagged":true,"trustScore":-44}}''\<close>

definition body_null :: string where
  "body_null = ''null''"

definition body_html :: string where
  \<open>body_html = ''<html>502 Bad Gateway</html>''\<close>

definition example_parse :: "string \<Rightarrow> string + jsval" where
  "example_parse body =
     (if body = body_stats
      then Inr (JObj [(''success'', JBool True),
                      (''data'', JObj [(''participatingServers'', JNum 10)])])
      else if body = body_rate_limited
      then Inr (JObj [(''error'', JStr ''Rate limit exceeded'')])
      else if body = body_null
      then Inr JNull
      else if body = body_not_found
      then Inr (JObj [(''success'', JBool False), (''error'', JStr ''User not found'')])
      else if body = body_check
      then Inr (JObj [(''success'', JBool True),
                      (''data'', JObj [(''userId'', JStr ''123456789''), (''flagged'', JBool True),
                                       (''trustScore'', JNum (- 44))])])
      else if body = body_unauthorized
      then Inr (JObj [(''success'', JBool False), (''message'', JStr ''Invalid API key''),
                      (''error'', JStr ''Unauthorized'')])
      else Inl ''Unexpected token < in JSON at position 0'')"

definition example_world :: "outcome \<Rightarrow> world" where
  "example_world out =
     \<lparr>JSON_parse = example_parse,
      url_href = (\<lambda>endpoint base. ''https://elysium-online.xyz'' @ endpoint),
      transport = (\<lambda>req. out)\<rparr>"

definition response_ok :: outcome where
  "response_ok =
     Response 200 [(''content-type'', ''application/json''), (''x-ratelimit-limit'', ''30''),
                   (''x-ratelimit-remaining'', ''27''),
                   (''x-ratelimit-reset'', ''1763566621'')] body_stats"

definition response_429 :: outcome where
  "response_429 =
     Response 429 [(''content-type'', ''application/json''), (''x-ratelimit-remaining'', ''0''),
                   (''retry-after'', ''42'')] body_rate_limited"

definition response_429_null :: outcome where
  "response_429_null =
     Response 429 [(''content-type'', ''application/json''), (''x-ratelimit-remaining'', ''0''),
                   (''retry-after'', ''42'')] body_null"

definition response_200_null :: outcome where
  "response_200_null =
     Response 200 [(''content-type'', ''application/json''), (''x-ratelimit-remaining'', ''0''),
                   (''retry-after'', ''42'')] body_null"

definition response_html :: outcome where
  "response_html = Response 200 [(''content-type'', ''text/html'')] body_html"

definition response_plain :: outcome where
  "response_plain = Response 200 [(''content-type'', ''application/json'')] body_stats"

definition response_401 :: outcome where
  "response_401 = Response 401 [(''content-type'', ''application/json'')] body_unauthorized"

definition falsy_options :: options where
  "falsy_options = \<lparr>opt_apiUrl = JStr [], opt_timeout = Some 0, opt_debug = JBool False\<rparr>"



section \<open>Properties\<close>

subsection \<open>No method writes to the client\<close>

lemma self_u_log: "self (u_log m d s) = self s"
  by (simp add: u_log_def)


lemma self_on_end: "self (snd (on_end w st hs b s)) = self s"
  by (simp add: on_end_def Let_def self_u_log split: sum.splits)


lemma self_u_request: "self (snd (u_request w m e d s)) = self s"
  by (simp add: u_request_def Let_def self_u_log self_on_end split: outcome.splits)


lemma snd_checkUser:
  "snd (checkUser w u s) =
     (if truthy u
      then snd (u_request w ''POST'' ''/api/v1/shield/check'' (JObj [(''userId'', u)]) s)
      else s)"
  by (cases "u_request w ''POST'' ''/api/v1/shield/check'' (JObj [(''userId'', u)]) s")
    (simp add: checkUser_def Let_def split: sum.splits)

lemma snd_reportAction:
  "snd (reportAction w a s) =
     (if check_required a required = None
         \<and> (\<exists>t. get_prop a ''actionType'' = Inr t \<and> array_includes validActions t)
      then snd (u_request w ''POST'' ''/api/v1/shield/report-action'' a s)
      else s)"
  by (cases "u_request w ''POST'' ''/api/v1/shield/report-action'' a s")
    (auto simp add: reportAction_def Let_def split: sum.splits option.splits)

lemma snd_getNetworkStats:
  "snd (getNetworkStats w s) = snd (u_request w ''GET'' ''/api/v1/shield/stats'' JNull s)"
  by (cases "u_request w ''GET'' ''/api/v1/shield/stats'' JNull s")
    (simp add: getNetworkStats_def Let_def split: sum.splits)

lemma snd_verifyApiKey: "snd (verifyApiKey w s) = snd (getNetworkStats w s)"
  by (cases "getNetworkStats w s") (simp add: verifyApiKey_def split: sum.splits)

lemma self_checkUser: "self (snd (checkUser w u s)) = self s"
  by (simp add: snd_checkUser self_u_request)

lemma self_reportAction: "self (snd (reportAction w a s)) = self s"
  by (simp add: snd_reportAction self_u_request)

lemma self_getNetworkStats: "self (snd (getNetworkStats w s)) = self s"
  by (simp add: snd_getNetworkStats self_u_request)

lemma self_verifyApiKey: "self (snd (verifyApiKey w s)) = self s"
  by (simp add: snd_verifyApiKey self_getNetworkStats)

subsection \<open>What a request settles with\<close>

lemma fst_on_end:
  "fst (on_end w st hs b s) =
     (case JSON_parse w b of
        Inl e \<Rightarrow> Inl (parse_failure st e)
      | Inr parsed \<Rightarrow>
          (case extract_rateLimit hs of
             Inl e \<Rightarrow> Inl (parse_failure st e)
           | Inr rl \<Rightarrow>
               if 200 \<le> st \<and> st < 300 then Inr (attach_rateLimit parsed rl)
               else Inl (error_rejection st (attach_rateLimit parsed rl) rl)))"
  by (auto simp add: on_end_def Let_def split: sum.splits)

lemma fst_u_request_Response:
  assumes "transport w (build_request (self s) m e d) = Response st hs b"
  shows "fst (u_request w m e d s) = fst (on_end w st hs b s)"
  using assms by (simp add: u_request_def Let_def fst_on_end)

lemma fst_u_request_NetworkError:
  assumes "transport w (build_request (self s) m e d) = NetworkError msg"
  shows "fst (u_request w m e d s) =
           Inl \<lparr>statusCode = None, message = JStr ''Network error'', error = JStr msg, rateLimit = None\<rparr>"
  using assms by (simp add: u_request_def Let_def)

lemma fst_u_request_Timeout:
  assumes "transport w (build_request (self s) m e d) = Timeout"
  shows "fst (u_request w m e d s) =
           Inl \<lparr>statusCode = None, message = JStr ''Request timeout'',
                 error = JStr (''Request exceeded '' @ show_int (timeout (self s)) @ ''ms''),
                 rateLimit = None\<rparr>"
  using assms by (simp add: u_request_def Let_def)

lemma map_of_set_from_header:
  "map_of (set_from_header hs name key rl) k =
     (if k = key then (case header hs name of None \<Rightarrow> map_of rl k | Some v \<Rightarrow> Some (parseInt v))
      else map_of rl k)"
  by (simp add: set_from_header_def AList.update_conv' split: option.splits)

lemma set_from_header_Nil:
  "set_from_header hs name key rl = [] \<longleftrightarrow> rl = [] \<and> header hs name = None"
  by (simp add: set_from_header_def split: option.splits)


lemma map_of_set_reset:
  assumes "set_reset hs rl = Inr rl'"
  shows "map_of rl' k =
     (case header hs ''x-ratelimit-reset'' of
        None \<Rightarrow> map_of rl k
      | Some v \<Rightarrow>
          if k = ''resetTimestamp'' then Some (parseInt v)
          else if k = ''resetAt'' then (case toISOString (parseInt v) of Inl e \<Rightarrow> None | Inr i \<Rightarrow> Some (JStr i))
          else map_of rl k)"
  using assms
  by (auto simp add: set_reset_def Let_def AList.update_conv' split: option.splits sum.splits)

lemma set_reset_Nil:
  assumes "set_reset hs rl = Inr rl'"
  shows "rl' = [] \<longleftrightarrow> rl = [] \<and> header hs ''x-ratelimit-reset'' = None"
  using assms by (auto simp add: set_reset_def Let_def split: option.splits sum.splits)

lemma getRateLimit_u_request: "getRateLimit (snd (u_request w m e d s)) = getRateLimit s"
  by (simp add: getRateLimit_def self_u_request)

lemma getRateLimit_public_methods:
  "getRateLimit (snd (checkUser w u s)) = getRateLimit s"
  "getRateLimit (snd (reportAction w a s)) = getRateLimit s"
  "getRateLimit (snd (getNetworkStats w s)) = getRateLimit s"
  "getRateLimit (snd (verifyApiKey w s)) = getRateLimit s"
  by (simp_all add: getRateLimit_def self_checkUser self_reportAction self_getNetworkStats
      self_verifyApiKey)

lemma getRateLimit_constructor: "constructor key opts = Inr s \<Longrightarrow> getRateLimit s = JNull"
  by (auto simp add: constructor_def Let_def u_log_def getRateLimit_def js_or_def
      split: if_splits)

subsection \<open>The rate-limit accessor\<close>

text \<open>
  C1. \<^verbatim>\<open>getRateLimit()\<close> returns \<^verbatim>\<open>null\<close> before any request has completed, and
  after a completed request it is to return the rate-limit information of that
  request's response headers. The first half holds (\<open>getRateLimit_constructor\<close>). The
  second does not: no method assigns \<^verbatim>\<open>_lastRateLimit\<close>
  (\<open>getRateLimit_public_methods\<close>), so the accessor still returns \<^verbatim>\<open>null\<close> after a
  successful \<^verbatim>\<open>getNetworkStats\<close> whose response carried the headers
  \<^verbatim>\<open>x-ratelimit-limit: 30\<close>, \<^verbatim>\<open>x-ratelimit-remaining: 27\<close> and
  \<^verbatim>\<open>x-ratelimit-reset: 1763566621\<close>, although the request itself resolved with that
  snapshot attached to its response.
\<close>

theorem getRateLimit_null_after_request:
  "constructor (JStr ''shield_key'') example_options = Inr example_sdk
   \<and> getRateLimit example_sdk = JNull
   \<and> fst (u_request (example_world response_ok) ''GET'' ''/api/v1/shield/stats'' JNull example_sdk)
       = Inr (JObj [(''success'', JBool True),
                    (''data'', JObj [(''participatingServers'', JNum 10)]),
                    (''rateLimit'', JObj [(''limit'', JNum 30), (''remaining'', JNum 27),
                                          (''resetAt'', JStr ''2025-11-19T15:37:01.000Z''),
                                          (''resetTimestamp'', JNum 1763566621)])])
   \<and> fst (getNetworkStats (example_world response_ok) example_sdk)
       = Inr (JObj [(''participatingServers'', JNum 10)])
   \<and> getRateLimit (snd (getNetworkStats (example_world response_ok) example_sdk)) = JNull"
proof -
  have "constructor (JStr ''shield_key'') example_options = Inr example_sdk"
    by code_simp
  moreover have "getRateLimit example_sdk = JNull"
    by code_simp
  moreover have "fst (u_request (example_world response_ok) ''GET'' ''/api/v1/shield/stats'' JNull example_sdk)
       = Inr (JObj [(''success'', JBool True),
                    (''data'', JObj [(''participatingServers'', JNum 10)]),
                    (''rateLimit'', JObj [(''limit'', JNum 30), (''remaining'', JNum 27),
                                          (''resetAt'', JStr ''2025-11-19T15:37:01.000Z''),
                                          (''resetTimestamp'', JNum 1763566621)])])"
    by code_simp
  moreover have "fst (getNetworkStats (example_world response_ok) example_sdk)
       = Inr (JObj [(''participatingServers'', JNum 10)])"
    by code_simp
  moreover have "getRateLimit (snd (getNetworkStats (example_world response_ok) example_sdk)) = JNull"
    by code_simp
  ultimately show ?thesis by blast
qed

subsection \<open>The shape of a public method's failure\<close>

text \<open>
  C2. Every failure of a public method is to keep the status code and the rate-limit
  snapshot of the underlying rejection available to the caller, under a prefix that
  names the method. The prefix and the message text are there; the rest is not: each
  \<^verbatim>\<open>catch\<close> throws \<^verbatim>\<open>new Error(...)\<close> built from \<^verbatim>\<open>error.message\<close> alone. On a 429
  response with \<^verbatim>\<open>x-ratelimit-remaining: 0\<close> and \<^verbatim>\<open>retry-after: 42\<close>, the request
  rejects with status code 429 and the snapshot, and \<^verbatim>\<open>checkUser\<close> throws an Error
  that has the message and nothing else.
\<close>

theorem checkUser_drops_statusCode:
  "fst (u_request (example_world response_429) ''POST'' ''/api/v1/shield/check''
          (JObj [(''userId'', JStr ''123456789'')]) example_sdk)
     = Inl \<lparr>statusCode = Some 429, message = JStr ''Rate limit exceeded'',
            error = JStr ''Rate limit exceeded'',
            rateLimit = Some [(''remaining'', JNum 0), (''retryAfter'', JNum 42)]\<rparr>
   \<and> fst (checkUser (example_world response_429) (JStr ''123456789'') example_sdk)
     = Inl (Error ''Failed to check user: Rate limit exceeded'')"
proof -
  have "fst (u_request (example_world response_429) ''POST'' ''/api/v1/shield/check''
          (JObj [(''userId'', JStr ''123456789'')]) example_sdk)
     = Inl \<lparr>statusCode = Some 429, message = JStr ''Rate limit exceeded'',
            error = JStr ''Rate limit exceeded'',
            rateLimit = Some [(''remaining'', JNum 0), (''retryAfter'', JNum 42)]\<rparr>"
    by code_simp
  moreover have "fst (checkUser (example_world response_429) (JStr ''123456789'') example_sdk)
     = Inl (Error ''Failed to check user: Rate limit exceeded'')"
    by code_simp
  ultimately show ?thesis by blast
qed

subsection \<open>The rate-limit object built from the headers\<close>


lemma extract_rateLimit_Inr:
  assumes "extract_rateLimit hs = Inr rl"
  shows "map_of rl ''limit'' = map_option parseInt (header hs ''x-ratelimit-limit'')"
    and "map_of rl ''remaining'' = map_option parseInt (header hs ''x-ratelimit-remaining'')"
    and "map_of rl ''resetTimestamp'' = map_option parseInt (header hs ''x-ratelimit-reset'')"
    and "map_of rl ''resetAt'' =
          (case header hs ''x-ratelimit-reset'' of
             None \<Rightarrow> None
           | Some v \<Rightarrow> (case toISOString (parseInt v) of Inl e \<Rightarrow> None | Inr i \<Rightarrow> Some (JStr i)))"
    and "map_of rl ''retryAfter'' = map_option parseInt (header hs ''retry-after'')"
    and "rl = [] \<longleftrightarrow>
          header hs ''x-ratelimit-limit'' = None \<and> header hs ''x-ratelimit-remaining'' = None
          \<and> header hs ''x-ratelimit-reset'' = None \<and> header hs ''retry-after'' = None"
proof -
  obtain rl3 where r3: "set_reset hs (set_from_header hs ''x-ratelimit-remaining'' ''remaining''
        (set_from_header hs ''x-ratelimit-limit'' ''limit'' [])) = Inr rl3"
    and rl: "rl = set_from_header hs ''retry-after'' ''retryAfter'' rl3"
    using assms by (auto simp add: extract_rateLimit_def Let_def split: sum.splits)
  note m = map_of_set_reset [OF r3] map_of_set_from_header
  show "map_of rl ''limit'' = map_option parseInt (header hs ''x-ratelimit-limit'')"
    by (simp add: rl m split: option.splits)
  show "map_of rl ''remaining'' = map_option parseInt (header hs ''x-ratelimit-remaining'')"
    by (simp add: rl m split: option.splits)
  show "map_of rl ''resetTimestamp'' = map_option parseInt (header hs ''x-ratelimit-reset'')"
    by (simp add: rl m split: option.splits)
  show "map_of rl ''resetAt'' =
          (case header hs ''x-ratelimit-reset'' of
             None \<Rightarrow> None
           | Some v \<Rightarrow> (case toISOString (parseInt v) of Inl e \<Rightarrow> None | Inr i \<Rightarrow> Some (JStr i)))"
    by (simp add: rl m split: option.splits)
  show "map_of rl ''retryAfter'' = map_option parseInt (header hs ''retry-after'')"
    by (simp add: rl m split: option.splits)
  show "rl = [] \<longleftrightarrow>
          header hs ''x-ratelimit-limit'' = None \<and> header hs ''x-ratelimit-remaining'' = None
          \<and> header hs ''x-ratelimit-reset'' = None \<and> header hs ''retry-after'' = None"
    using set_reset_Nil [OF r3] by (auto simp add: rl set_from_header_Nil)
qed



subsection \<open>A body that is not JSON\<close>

text \<open>
  C5. A response whose body \<^verbatim>\<open>JSON.parse\<close> rejects makes the request reject with
  the status code of the response, the fixed message \<^verbatim>\<open>Failed to parse response\<close>
  and the message of the parse error, whatever the status code: a status in the
  range from 200 to 299 does not make it a success. (The rejection carries no rate-limit
  object.)
\<close>

theorem unparseable_body_rejects:
  assumes "transport w (build_request (self s) method endpoint data) = Response status headers body"
    and "JSON_parse w body = Inl detail"
  shows "fst (u_request w method endpoint data s) =
           Inl \<lparr>statusCode = Some status, message = JStr ''Failed to parse response'',
                 error = JStr detail, rateLimit = None\<rparr>"
  using assms by (simp add: fst_u_request_Response fst_on_end parse_failure_def)

theorem unparseable_body_rejects_witness:
  "transport (example_world response_html)
       (build_request (self example_sdk) ''GET'' ''/api/v1/shield/stats'' JNull)
     = Response 200 [(''content-type'', ''text/html'')] body_html
   \<and> JSON_parse (example_world response_html) body_html = Inl ''Unexpected token < in JSON at position 0''
   \<and> (200 :: int) \<le> 200 \<and> (200 :: int) < 300
   \<and> fst (u_request (example_world response_html) ''GET'' ''/api/v1/shield/stats'' JNull example_sdk) =
           Inl \<lparr>statusCode = Some 200, message = JStr ''Failed to parse response'',
                 error = JStr ''Unexpected token < in JSON at position 0'', rateLimit = None\<rparr>"
proof -
  have t: "transport (example_world response_html)
       (build_request (self example_sdk) ''GET'' ''/api/v1/shield/stats'' JNull)
     = Response 200 [(''content-type'', ''text/html'')] body_html"
    by (simp add: example_world_def response_html_def)
  have p: "JSON_parse (example_world response_html) body_html = Inl ''Unexpected token < in JSON at position 0''"
    by code_simp
  show ?thesis
    using t p unparseable_body_rejects [OF t p] by simp
qed

subsection \<open>Reading a property of the response\<close>

lemma get_prop_attach_rateLimit:
  "k \<noteq> ''rateLimit'' \<Longrightarrow> get_prop (attach_rateLimit parsed rl) k = get_prop parsed k"
  by (cases parsed) (simp_all add: attach_rateLimit_def own_property_def AList.update_conv')

lemma get_prop_not_null:
  "v \<noteq> JNull \<Longrightarrow> v \<noteq> JUndefined \<Longrightarrow> \<exists>x. get_prop v k = Inr x"
  by (cases v) simp_all

subsection \<open>The error branch on a body that is not \<^verbatim>\<open>null\<close>\<close>

text \<open>
  When a response with a status code outside 200 to 299 has a body that parsed to a
  value other than \<^verbatim>\<open>null\<close>, and the rate-limit object was built, the request
  rejects with that status code and with the rate-limit object extracted from the
  headers, whatever it holds. With \<^verbatim>\<open>x-ratelimit-remaining: 0\<close> the object's
  \<^verbatim>\<open>remaining\<close> is 0, and with \<^verbatim>\<open>retry-after: 42\<close> its \<^verbatim>\<open>retryAfter\<close> is 42.
\<close>

lemma error_branch_attaches_rateLimit:
  assumes "transport w (build_request (self s) method endpoint data) = Response status headers body"
    and "\<not> (200 \<le> status \<and> status < 300)"
    and "JSON_parse w body = Inr parsed"
    and "parsed \<noteq> JNull" and "parsed \<noteq> JUndefined"
    and "extract_rateLimit headers = Inr rl"
  shows "(\<exists>m er. get_prop parsed ''message'' = Inr m \<and> get_prop parsed ''error'' = Inr er
            \<and> fst (u_request w method endpoint data s) =
                Inl \<lparr>statusCode = Some status,
                      message = js_or (js_or m er) (JStr ''Request failed''),
                      error = js_or er (JStr ''Unknown error''),
                      rateLimit = Some rl\<rparr>)
         \<and> (header headers ''x-ratelimit-remaining'' = Some ''0'' \<longrightarrow> map_of rl ''remaining'' = Some (JNum 0))
         \<and> (header headers ''retry-after'' = Some ''42'' \<longrightarrow> map_of rl ''retryAfter'' = Some (JNum 42))"
proof -
  obtain m where m: "get_prop parsed ''message'' = Inr m"
    using get_prop_not_null [OF assms(4,5)] by blast
  obtain er where er: "get_prop parsed ''error'' = Inr er"
    using get_prop_not_null [OF assms(4,5)] by blast
  have "fst (u_request w method endpoint data s) =
          Inl (error_rejection status (attach_rateLimit parsed rl) rl)"
    using assms(1,2,3,6) by (simp add: fst_u_request_Response fst_on_end)
  moreover have "error_rejection status (attach_rateLimit parsed rl) rl =
      \<lparr>statusCode = Some status, message = js_or (js_or m er) (JStr ''Request failed''),
       error = js_or er (JStr ''Unknown error''), rateLimit = Some rl\<rparr>"
    by (simp add: error_rejection_def get_prop_attach_rateLimit m er)
  moreover have "parseInt ''0'' = JNum 0" by code_simp
  moreover have "parseInt ''42'' = JNum 42" by code_simp
  ultimately show ?thesis
    using m er extract_rateLimit_Inr(2,5) [OF assms(6)] by simp
qed

lemma error_branch_attaches_rateLimit_example:
  "fst (u_request (example_world response_429) ''POST'' ''/api/v1/shield/check''
          (JObj [(''userId'', JStr ''123456789'')]) example_sdk) =
     Inl \<lparr>statusCode = Some 429, message = JStr ''Rate limit exceeded'',
           error = JStr ''Rate limit exceeded'',
           rateLimit = Some [(''remaining'', JNum 0), (''retryAfter'', JNum 42)]\<rparr>
   \<and> map_of [(''remaining'', JNum 0), (''retryAfter'', JNum 42)] ''remaining'' = Some (JNum 0)
   \<and> map_of [(''remaining'', JNum 0), (''retryAfter'', JNum 42)] ''retryAfter'' = Some (JNum 42)"
proof -
  let ?hs = "[(''content-type'', ''application/json''), (''x-ratelimit-remaining'', ''0''),
              (''retry-after'', ''42'')]"
  let ?parsed = "JObj [(''error'', JStr ''Rate limit exceeded'')]"
  let ?rl = "[(''remaining'', JNum 0), (''retryAfter'', JNum 42)]"
  have t: "transport (example_world response_429)
             (build_request (self example_sdk) ''POST'' ''/api/v1/shield/check''
                (JObj [(''userId'', JStr ''123456789'')]))
           = Response 429 ?hs body_rate_limited"
    by (simp add: example_world_def response_429_def)
  have st: "\<not> (200 \<le> (429 :: int) \<and> (429 :: int) < 300)" by simp
  have p: "JSON_parse (example_world response_429) body_rate_limited = Inr ?parsed"
    by code_simp
  have n1: "?parsed \<noteq> JNull" and n2: "?parsed \<noteq> JUndefined" by simp_all
  have e: "extract_rateLimit ?hs = Inr ?rl" by code_simp
  have h1: "header ?hs ''x-ratelimit-remaining'' = Some ''0''" by code_simp
  have h2: "header ?hs ''retry-after'' = Some ''42''" by code_simp
  have g1: "get_prop ?parsed ''message'' = Inr JUndefined" by code_simp
  have g2: "get_prop ?parsed ''error'' = Inr (JStr ''Rate limit exceeded'')" by code_simp
  show ?thesis
    using error_branch_attaches_rateLimit [OF t st p n1 n2 e] h1 h2 g1 g2
    by (simp add: js_or_def)
qed

subsection \<open>The rate-limit object of a rejection\<close>

text \<open>
  C7. The error branch of \<^verbatim>\<open>_request\<close> is to attach, always, the rate-limit object
  that was extracted from the response headers: a 429 with
  \<^verbatim>\<open>x-ratelimit-remaining: 0\<close> and \<^verbatim>\<open>retry-after: 42\<close> is to reject with
  \<^verbatim>\<open>rateLimit.remaining\<close> 0 and \<^verbatim>\<open>rateLimit.retryAfter\<close> 42. It does so when the
  body is not \<^verbatim>\<open>null\<close> (\<open>error_branch_attaches_rateLimit\<close>). When the body of that
  429 is the JSON text \<^verbatim>\<open>null\<close>, it does not: the object with \<^verbatim>\<open>remaining\<close> 0 and
  \<^verbatim>\<open>retryAfter\<close> 42 is extracted, but line 112 reads \<^verbatim>\<open>response.message\<close> of
  \<^verbatim>\<open>null\<close> inside the \<^verbatim>\<open>try\<close>, and the \<^verbatim>\<open>catch\<close> rejects with
  \<^verbatim>\<open>Failed to parse response\<close> and no \<^verbatim>\<open>rateLimit\<close>. The success path guards
  against a \<^verbatim>\<open>null\<close> body (\<^verbatim>\<open>response &&\<close> on line 101): the same headers and
  body with status 200 resolve with \<^verbatim>\<open>null\<close>.
\<close>

theorem error_branch_null_body_drops_rateLimit:
  "JSON_parse (example_world response_429_null) body_null = Inr JNull
   \<and> extract_rateLimit [(''content-type'', ''application/json''),
                          (''x-ratelimit-remaining'', ''0''), (''retry-after'', ''42'')]
       = Inr [(''remaining'', JNum 0), (''retryAfter'', JNum 42)]
   \<and> fst (u_request (example_world response_429_null) ''POST'' ''/api/v1/shield/check''
            (JObj [(''userId'', JStr ''123456789'')]) example_sdk)
       = Inl \<lparr>statusCode = Some 429, message = JStr ''Failed to parse response'',
              error = JStr (''Cannot read properties of null (reading '' @ [CHR 0x27]
                             @ ''message'' @ [CHR 0x27] @ '')''),
              rateLimit = None\<rparr>
   \<and> fst (u_request (example_world response_200_null) ''POST'' ''/api/v1/shield/check''
            (JObj [(''userId'', JStr ''123456789'')]) example_sdk)
       = Inr JNull"
proof -
  have "JSON_parse (example_world response_429_null) body_null = Inr JNull"
    by code_simp
  moreover have "extract_rateLimit [(''content-type'', ''application/json''),
                          (''x-ratelimit-remaining'', ''0''), (''retry-after'', ''42'')]
       = Inr [(''remaining'', JNum 0), (''retryAfter'', JNum 42)]"
    by code_simp
  moreover have "fst (u_request (example_world response_429_null) ''POST'' ''/api/v1/shield/check''
            (JObj [(''userId'', JStr ''123456789'')]) example_sdk)
       = Inl \<lparr>statusCode = Some 429, message = JStr ''Failed to parse response'',
              error = JStr (''Cannot read properties of null (reading '' @ [CHR 0x27]
                             @ ''message'' @ [CHR 0x27] @ '')''),
              rateLimit = None\<rparr>"
    by code_simp
  moreover have "fst (u_request (example_world response_200_null) ''POST'' ''/api/v1/shield/check''
            (JObj [(''userId'', JStr ''123456789'')]) example_sdk)
       = Inr JNull"
    by code_simp
  ultimately show ?thesis by (intro conjI)
qed

subsection \<open>\<^verbatim>\<open>parseInt\<close> reads a decimal numeral as its value\<close>

text \<open>
  A header value that is the decimal numeral of \<open>n\<close> (digits only, as \<open>show_nat\<close>
  writes it) is read by \<^verbatim>\<open>parseInt\<close> as \<open>n\<close>: no white space or sign is skipped, no
  \<^verbatim>\<open>0x\<close> prefix is seen, and every character is a digit of radix 10.
\<close>

lemma digits_evaluated:
  "list_all (\<lambda>d. digit_value (digit_char d) = Some (int d)
      \<and> \<not> StrWhiteSpaceChar (digit_char d) \<and> digit_char d \<noteq> CHR ''-''
      \<and> digit_char d \<noteq> CHR ''+'' \<and> digit_char d \<noteq> CHR ''x'' \<and> digit_char d \<noteq> CHR ''X'') [0..<10]"
  by code_simp

lemma digit_char_facts:
  assumes "d < 10"
  shows "digit_value (digit_char d) = Some (int d)"
    and "\<not> StrWhiteSpaceChar (digit_char d)" and "digit_char d \<noteq> CHR ''-''"
    and "digit_char d \<noteq> CHR ''+''" and "digit_char d \<noteq> CHR ''x''" and "digit_char d \<noteq> CHR ''X''"
proof -
  have "d \<in> set [0..<10]" using assms by simp
  then have "digit_value (digit_char d) = Some (int d)
      \<and> \<not> StrWhiteSpaceChar (digit_char d) \<and> digit_char d \<noteq> CHR ''-''
      \<and> digit_char d \<noteq> CHR ''+'' \<and> digit_char d \<noteq> CHR ''x'' \<and> digit_char d \<noteq> CHR ''X''"
    using digits_evaluated unfolding list_all_iff by blast
  then show "digit_value (digit_char d) = Some (int d)"
    and "\<not> StrWhiteSpaceChar (digit_char d)" and "digit_char d \<noteq> CHR ''-''"
    and "digit_char d \<noteq> CHR ''+''" and "digit_char d \<noteq> CHR ''x''" and "digit_char d \<noteq> CHR ''X''"
    by simp_all
qed


declare show_nat.simps [simp del]

lemma show_nat_unfold: "\<not> n < 10 \<Longrightarrow> show_nat n = show_nat (n div 10) @ [digit_char (n mod 10)]"
  by (subst show_nat.simps) simp

lemma show_nat_small: "n < 10 \<Longrightarrow> show_nat n = [digit_char n]"
  by (subst show_nat.simps) simp

lemma show_nat_digits: "c \<in> set (show_nat n) \<Longrightarrow> \<exists>d<10. c = digit_char d"
proof (induction n arbitrary: c rule: show_nat.induct)
  case (1 n)
  show ?case
  proof (cases "n < 10")
    case True
    with "1.prems" show ?thesis by (auto simp add: show_nat_small)
  next
    case False
    with "1.prems" have "c \<in> set (show_nat (n div 10)) \<or> c = digit_char (n mod 10)"
      by (auto simp add: show_nat_unfold)
    then show ?thesis
    proof
      assume "c \<in> set (show_nat (n div 10))"
      with False show ?thesis using "1.IH" by blast
    next
      assume "c = digit_char (n mod 10)"
      moreover have "n mod 10 < 10" by simp
      ultimately show ?thesis by blast
    qed
  qed
qed


lemma show_nat_Cons: "\<exists>d cs. d < 10 \<and> show_nat n = digit_char d # cs"
proof -
  have "show_nat n \<noteq> []"
    by (cases "n < 10") (simp_all add: show_nat_small show_nat_unfold)
  then obtain c cs where cs: "show_nat n = c # cs"
    by (cases "show_nat n") auto
  then have "c \<in> set (show_nat n)" by simp
  then obtain d where "d < 10" "c = digit_char d"
    using show_nat_digits by blast
  with cs show ?thesis by blast
qed

lemma radix_digits_snoc:
  assumes "\<forall>c\<in>set cs. \<exists>d<10. c = digit_char d" and "d < 10"
  shows "radix_digits 10 (cs @ [digit_char d]) = radix_digits 10 cs @ [int d]"
  using assms by (induction cs) (auto simp add: digit_char_facts(1))

lemma radix_digits_show_nat:
  "radix_digits 10 (show_nat n) \<noteq> []
   \<and> foldl (\<lambda>a d. a * 10 + d) 0 (radix_digits 10 (show_nat n)) = int n"
proof (induction n rule: show_nat.induct)
  case (1 n)
  show ?case
  proof (cases "n < 10")
    case True
    then show ?thesis by (simp add: show_nat_small digit_char_facts(1))
  next
    case False
    have "radix_digits 10 (show_nat n) = radix_digits 10 (show_nat (n div 10)) @ [int (n mod 10)]"
      unfolding show_nat_unfold [OF False]
      by (rule radix_digits_snoc) (use show_nat_digits in auto)
    moreover have "foldl (\<lambda>a d. a * 10 + d) 0 (radix_digits 10 (show_nat (n div 10))) = int (n div 10)"
      using "1.IH" False by simp
    ultimately show ?thesis
      by (simp add: zdiv_int zmod_int)
  qed
qed


lemma parseInt_show_nat: "parseInt (show_nat n) = JNum (int n)"
proof -
  obtain d cs where d: "d < 10" and s: "show_nat n = digit_char d # cs"
    using show_nat_Cons by blast
  note plain = digit_char_facts [OF d]
  have drop: "dropWhile StrWhiteSpaceChar (show_nat n) = show_nat n"
    using plain(2) by (simp add: s)
  have tail: "take 1 cs \<noteq> ''x'' \<and> take 1 cs \<noteq> ''X''"
  proof (cases cs)
    case Nil
    then show ?thesis by simp
  next
    case (Cons c cs')
    then have "c \<in> set (show_nat n)" by (simp add: s)
    then obtain e where "e < 10" "c = digit_char e"
      using show_nat_digits by blast
    then show ?thesis
      using digit_char_facts(5,6) [of e] Cons by simp
  qed
  have hex: "take 2 (show_nat n) \<noteq> ''0x''" "take 2 (show_nat n) \<noteq> ''0X''"
    using tail by (cases cs; simp add: s)+
  have sign: "take 1 (show_nat n) \<noteq> ''-''" "take 1 (show_nat n) \<noteq> ''+''"
    using plain(3,4) by (simp_all add: s)
  show ?thesis
    using radix_digits_show_nat [of n] drop hex sign
    by (simp add: parseInt_def Let_def)
qed

subsection \<open>The reset header\<close>



subsection \<open>Absent headers and the attached object\<close>

lemma header_None: "map_of hs n = None \<Longrightarrow> header hs n = None"
  by (simp add: header_def)

lemma header_Some: "header hs n = Some v \<Longrightarrow> map_of hs n = Some v \<and> v \<noteq> []"
  by (simp add: header_def split: option.splits if_splits)

lemma attach_rateLimit_Nil: "attach_rateLimit parsed [] = parsed"
  by (simp add: attach_rateLimit_def)

lemma get_prop_attach_rateLimit_same:
  "truthy parsed \<Longrightarrow> typeof_object parsed \<Longrightarrow> rl \<noteq> [] \<Longrightarrow>
     get_prop (attach_rateLimit parsed rl) ''rateLimit'' = Inr (JObj rl)"
  by (cases parsed) (simp_all add: attach_rateLimit_def own_property_def AList.update_conv')

subsection \<open>The rate-limit object of a resolved response\<close>

text \<open>
  C9. A response with a status code from 200 to 299 resolves with the parsed body, and
  the \<^verbatim>\<open>rateLimit\<close> field is set on it only when at least one of the four
  rate-limit headers was there. When none was returned, the resolved value is the parsed
  body as it is: nothing is added, so a body without a \<^verbatim>\<open>rateLimit\<close> field resolves
  without one. When it is set (on an object or array body, with a header that has a
  value), it is the extracted object. Inside that object, the field of a header that
  was not returned is left out, not set to zero.
\<close>

theorem rateLimit_injected_only_with_headers:
  assumes "transport w (build_request (self s) method endpoint data) = Response status headers body"
    and "200 \<le> status" and "status < 300"
    and "JSON_parse w body = Inr parsed"
    and "extract_rateLimit headers = Inr rl"
  shows "fst (u_request w method endpoint data s) = Inr (attach_rateLimit parsed rl)
     \<and> (attach_rateLimit parsed rl \<noteq> parsed \<longrightarrow>
          map_of headers ''x-ratelimit-limit'' \<noteq> None \<or> map_of headers ''x-ratelimit-remaining'' \<noteq> None
          \<or> map_of headers ''x-ratelimit-reset'' \<noteq> None \<or> map_of headers ''retry-after'' \<noteq> None)
     \<and> (map_of headers ''x-ratelimit-limit'' = None \<and> map_of headers ''x-ratelimit-remaining'' = None
          \<and> map_of headers ''x-ratelimit-reset'' = None \<and> map_of headers ''retry-after'' = None
          \<longrightarrow> attach_rateLimit parsed rl = parsed
               \<and> (get_prop parsed ''rateLimit'' = Inr JUndefined
                    \<longrightarrow> get_prop (attach_rateLimit parsed rl) ''rateLimit'' = Inr JUndefined))
     \<and> (truthy parsed \<and> typeof_object parsed \<and> rl \<noteq> []
          \<longrightarrow> get_prop (attach_rateLimit parsed rl) ''rateLimit'' = Inr (JObj rl))
     \<and> (map_of headers ''x-ratelimit-limit'' = None \<longrightarrow> map_of rl ''limit'' = None)
     \<and> (map_of headers ''x-ratelimit-remaining'' = None \<longrightarrow> map_of rl ''remaining'' = None)
     \<and> (map_of headers ''x-ratelimit-reset'' = None \<longrightarrow>
          map_of rl ''resetAt'' = None \<and> map_of rl ''resetTimestamp'' = None)
     \<and> (map_of headers ''retry-after'' = None \<longrightarrow> map_of rl ''retryAfter'' = None)"
proof -
  note rl = extract_rateLimit_Inr [OF assms(5)]
  have resolved: "fst (u_request w method endpoint data s) = Inr (attach_rateLimit parsed rl)"
    using assms by (simp add: fst_u_request_Response fst_on_end)
  have empty: "rl = []"
    if "map_of headers ''x-ratelimit-limit'' = None" and "map_of headers ''x-ratelimit-remaining'' = None"
      and "map_of headers ''x-ratelimit-reset'' = None" and "map_of headers ''retry-after'' = None"
    using that rl(6) by (simp add: header_None)
  have only: "map_of headers ''x-ratelimit-limit'' \<noteq> None \<or> map_of headers ''x-ratelimit-remaining'' \<noteq> None
          \<or> map_of headers ''x-ratelimit-reset'' \<noteq> None \<or> map_of headers ''retry-after'' \<noteq> None"
    if "attach_rateLimit parsed rl \<noteq> parsed"
  proof (rule ccontr)
    assume "\<not> ?thesis"
    then have "rl = []" using empty by simp
    with that show False by (simp add: attach_rateLimit_Nil)
  qed
  have f1: "map_of rl ''limit'' = None" if "map_of headers ''x-ratelimit-limit'' = None"
    using rl(1) that by (simp add: header_None)
  have f2: "map_of rl ''remaining'' = None" if "map_of headers ''x-ratelimit-remaining'' = None"
    using rl(2) that by (simp add: header_None)
  have f3: "map_of rl ''resetAt'' = None \<and> map_of rl ''resetTimestamp'' = None"
    if "map_of headers ''x-ratelimit-reset'' = None"
    using rl(3,4) that by (simp add: header_None)
  have f4: "map_of rl ''retryAfter'' = None" if "map_of headers ''retry-after'' = None"
    using rl(5) that by (simp add: header_None)
  show ?thesis
    using resolved only empty f1 f2 f3 f4 get_prop_attach_rateLimit_same [of parsed rl]
    by (simp add: attach_rateLimit_Nil)
qed


theorem rateLimit_injected_only_with_headers_witness:
  "fst (u_request (example_world response_plain) ''GET'' ''/api/v1/shield/stats'' JNull example_sdk)
     = Inr (JObj [(''success'', JBool True), (''data'', JObj [(''participatingServers'', JNum 10)])])
   \<and> get_prop (JObj [(''success'', JBool True), (''data'', JObj [(''participatingServers'', JNum 10)])])
        ''rateLimit'' = Inr JUndefined
   \<and> fst (u_request (example_world response_ok) ''GET'' ''/api/v1/shield/stats'' JNull example_sdk)
     = Inr (JObj [(''success'', JBool True), (''data'', JObj [(''participatingServers'', JNum 10)]),
                  (''rateLimit'', JObj [(''limit'', JNum 30), (''remaining'', JNum 27),
                                        (''resetAt'', JStr ''2025-11-19T15:37:01.000Z''),
                                        (''resetTimestamp'', JNum 1763566621)])])
   \<and> map_of [(''limit'', JNum 30), (''remaining'', JNum 27),
              (''resetAt'', JStr ''2025-11-19T15:37:01.000Z''),
              (''resetTimestamp'', JNum 1763566621)] ''retryAfter'' = None"
proof -
  let ?parsed = "JObj [(''success'', JBool True), (''data'', JObj [(''participatingServers'', JNum 10)])]"
  let ?plain = "[(''content-type'', ''application/json'')]"
  let ?hs = "[(''content-type'', ''application/json''), (''x-ratelimit-limit'', ''30''),
              (''x-ratelimit-remaining'', ''27''), (''x-ratelimit-reset'', ''1763566621'')]"
  let ?rl = "[(''limit'', JNum 30), (''remaining'', JNum 27),
              (''resetAt'', JStr ''2025-11-19T15:37:01.000Z''),
              (''resetTimestamp'', JNum 1763566621)]"
  have ok: "(200 :: int) \<le> 200" "(200 :: int) < 300" by simp_all
  have t1: "transport (example_world response_plain)
              (build_request (self example_sdk) ''GET'' ''/api/v1/shield/stats'' JNull)
            = Response 200 ?plain body_stats"
    by (simp add: example_world_def response_plain_def)
  have t2: "transport (example_world response_ok)
              (build_request (self example_sdk) ''GET'' ''/api/v1/shield/stats'' JNull)
            = Response 200 ?hs body_stats"
    by (simp add: example_world_def response_ok_def)
  have p1: "JSON_parse (example_world response_plain) body_stats = Inr ?parsed" by code_simp
  have p2: "JSON_parse (example_world response_ok) body_stats = Inr ?parsed" by code_simp
  have e1: "extract_rateLimit ?plain = Inr []" by code_simp
  have e2: "extract_rateLimit ?hs = Inr ?rl" by code_simp
  have a1: "attach_rateLimit ?parsed [] = ?parsed" by code_simp
  have a2: "attach_rateLimit ?parsed ?rl = JObj [(''success'', JBool True),
              (''data'', JObj [(''participatingServers'', JNum 10)]), (''rateLimit'', JObj ?rl)]"
    by code_simp
  have g: "get_prop ?parsed ''rateLimit'' = Inr JUndefined" by code_simp
  have m: "map_of ?hs ''retry-after'' = None" by code_simp
  have r1: "fst (u_request (example_world response_plain) ''GET'' ''/api/v1/shield/stats'' JNull example_sdk)
              = Inr ?parsed"
    using rateLimit_injected_only_with_headers [OF t1 ok p1 e1] a1 by simp
  have r2: "fst (u_request (example_world response_ok) ''GET'' ''/api/v1/shield/stats'' JNull example_sdk)
              = Inr (JObj [(''success'', JBool True),
                  (''data'', JObj [(''participatingServers'', JNum 10)]), (''rateLimit'', JObj ?rl)])
            \<and> map_of ?rl ''retryAfter'' = None"
    using rateLimit_injected_only_with_headers [OF t2 ok p2 e2] a2 m by simp
  show ?thesis using r1 r2 g by simp
qed

subsection \<open>The constructor's defaults\<close>

text \<open>
  C10. With a truthy API key the constructor succeeds and makes no HTTP request. A
  falsy option is replaced by its default: \<^verbatim>\<open>timeout: 0\<close> (or none) gives 10000,
  \<^verbatim>\<open>apiUrl: ''\<close> (or any falsy value) gives the default base URL, and a falsy
  \<^verbatim>\<open>debug\<close> gives \<^verbatim>\<open>false\<close>, with which the constructor writes nothing to
  the console. So no client has a zero timeout or an empty base URL.
\<close>

theorem constructor_defaults:
  assumes "truthy key"
  shows "\<exists>s. constructor key opts = Inr s
           \<and> apiKey (self s) = key
           \<and> http_requests s = []
           \<and> (opt_timeout opts = Some 0 \<or> opt_timeout opts = None \<longrightarrow> timeout (self s) = 10000)
           \<and> (\<not> truthy (opt_apiUrl opts) \<longrightarrow> apiUrl (self s) = JStr ''https://elysium-online.xyz/api'')
           \<and> (\<not> truthy (opt_debug opts) \<longrightarrow> debug (self s) = JBool False \<and> trace s = [])
           \<and> timeout (self s) \<noteq> 0
           \<and> apiUrl (self s) \<noteq> JStr []"
  using assms
  by (auto simp add: constructor_def Let_def u_log_def js_or_def or_default_def http_requests_def
      split: option.splits)

theorem constructor_defaults_witness:
  "truthy (JStr ''shield_key'')
   \<and> opt_timeout falsy_options = Some 0
   \<and> opt_apiUrl falsy_options = JStr []
   \<and> opt_debug falsy_options = JBool False
   \<and> constructor (JStr ''shield_key'') falsy_options = Inr example_sdk
   \<and> timeout (self example_sdk) = 10000
   \<and> apiUrl (self example_sdk) = JStr ''https://elysium-online.xyz/api''
   \<and> debug (self example_sdk) = JBool False
   \<and> trace example_sdk = []"
proof -
  have k: "truthy (JStr ''shield_key'')" by simp
  have c: "constructor (JStr ''shield_key'') falsy_options = Inr example_sdk" by code_simp
  show ?thesis
    using k c constructor_defaults [OF k, of falsy_options]
    by (simp add: falsy_options_def)
qed

subsection \<open>What \<^verbatim>\<open>getNetworkStats\<close> returns and throws\<close>

lemma fst_getNetworkStats:
  "fst (getNetworkStats w s) =
     (case fst (u_request w ''GET'' ''/api/v1/shield/stats'' JNull s) of
        Inl rej \<Rightarrow> Inl (rethrow ''Failed to get network stats'' (Rejected rej))
      | Inr response \<Rightarrow>
          (case unless_success ''Failed to get network stats'' response of
             Inl t \<Rightarrow> Inl (rethrow ''Failed to get network stats'' t)
           | Inr resp \<Rightarrow>
               (case get_prop resp ''data'' of
                  Inl e \<Rightarrow> Inl (rethrow ''Failed to get network stats'' (Thrown (TypeError e)))
                | Inr d \<Rightarrow> Inr d)))"
  by (cases "u_request w ''GET'' ''/api/v1/shield/stats'' JNull s")
    (simp add: getNetworkStats_def Let_def split: sum.splits)

lemma fst_verifyApiKey:
  "fst (verifyApiKey w s) = (\<exists>stats. fst (getNetworkStats w s) = Inr stats)"
  by (cases "getNetworkStats w s") (auto simp add: verifyApiKey_def split: sum.splits)

lemma getNetworkStats_rejected:
  "fst (u_request w ''GET'' ''/api/v1/shield/stats'' JNull s) = Inl rej \<Longrightarrow>
     \<exists>e. fst (getNetworkStats w s) = Inl e"
  by (simp add: fst_getNetworkStats)

subsection \<open>\<^verbatim>\<open>verifyApiKey\<close>\<close>

text \<open>
  C6. \<^verbatim>\<open>verifyApiKey()\<close> returns a boolean and propagates no error: \<^verbatim>\<open>true\<close>
  exactly when \<^verbatim>\<open>getNetworkStats\<close> resolves, \<^verbatim>\<open>false\<close> whenever it throws, and so
  on a transport error, on a timeout, on every status code outside 200 to 299 (a bad
  credential is a 401) and on a body that does not parse. It leaves the client as it was.
\<close>

theorem verifyApiKey_boolean_probe:
  "fst (verifyApiKey w s) = (\<exists>stats. fst (getNetworkStats w s) = Inr stats)
   \<and> (\<forall>e. fst (getNetworkStats w s) = Inl e \<longrightarrow> fst (verifyApiKey w s) = False)
   \<and> (\<forall>msg. transport w (build_request (self s) ''GET'' ''/api/v1/shield/stats'' JNull) = NetworkError msg
         \<longrightarrow> fst (verifyApiKey w s) = False)
   \<and> (transport w (build_request (self s) ''GET'' ''/api/v1/shield/stats'' JNull) = Timeout
         \<longrightarrow> fst (verifyApiKey w s) = False)
   \<and> (\<forall>status headers body.
         transport w (build_request (self s) ''GET'' ''/api/v1/shield/stats'' JNull)
           = Response status headers body \<and> \<not> (200 \<le> status \<and> status < 300)
         \<longrightarrow> fst (verifyApiKey w s) = False)
   \<and> (\<forall>status headers body detail.
         transport w (build_request (self s) ''GET'' ''/api/v1/shield/stats'' JNull)
           = Response status headers body \<and> JSON_parse w body = Inl detail
         \<longrightarrow> fst (verifyApiKey w s) = False)
   \<and> self (snd (verifyApiKey w s)) = self s"
proof -
  let ?req = "build_request (self s) ''GET'' ''/api/v1/shield/stats'' JNull"
  have rejected: "fst (verifyApiKey w s) = False"
    if "fst (u_request w ''GET'' ''/api/v1/shield/stats'' JNull s) = Inl rej" for rej
    using getNetworkStats_rejected [OF that] by (auto simp add: fst_verifyApiKey)
  have net: "fst (verifyApiKey w s) = False" if "transport w ?req = NetworkError msg" for msg
    using fst_u_request_NetworkError [OF that] by (rule rejected)
  have tmo: "fst (verifyApiKey w s) = False" if "transport w ?req = Timeout"
    using fst_u_request_Timeout [OF that] by (rule rejected)
  have status: "fst (verifyApiKey w s) = False"
    if "transport w ?req = Response status headers body" and "\<not> (200 \<le> status \<and> status < 300)"
    for status headers body
  proof -
    have "\<exists>rej. fst (on_end w status headers body s) = Inl rej"
      using that(2) by (auto simp add: fst_on_end split: sum.splits)
    then show ?thesis
      using rejected fst_u_request_Response [OF that(1)] by auto
  qed
  have parse: "fst (verifyApiKey w s) = False"
    if "transport w ?req = Response status headers body" and "JSON_parse w body = Inl detail"
    for status headers body detail
  proof -
    have "fst (on_end w status headers body s) = Inl (parse_failure status detail)"
      using that(2) by (simp add: fst_on_end)
    then show ?thesis
      using rejected fst_u_request_Response [OF that(1)] by auto
  qed
  have failed: "fst (verifyApiKey w s) = False" if "fst (getNetworkStats w s) = Inl e" for e
    using that by (simp add: fst_verifyApiKey)
  show ?thesis
    using fst_verifyApiKey [of w s] failed net tmo status parse self_verifyApiKey [of w s]
    by blast
qed

theorem verifyApiKey_boolean_probe_witness:
  "fst (verifyApiKey (example_world response_ok) example_sdk) = True
   \<and> fst (verifyApiKey (example_world response_401) example_sdk) = False
   \<and> fst (verifyApiKey (example_world response_html) example_sdk) = False
   \<and> fst (verifyApiKey (example_world (NetworkError ''connect ECONNREFUSED'')) example_sdk) = False
   \<and> fst (verifyApiKey (example_world Timeout) example_sdk) = False"
proof -
  let ?req = "build_request (self example_sdk) ''GET'' ''/api/v1/shield/stats'' JNull"
  have ok: "fst (getNetworkStats (example_world response_ok) example_sdk)
              = Inr (JObj [(''participatingServers'', JNum 10)])"
    by code_simp
  have t401: "transport (example_world response_401) ?req
                = Response 401 [(''content-type'', ''application/json'')] body_unauthorized
              \<and> \<not> (200 \<le> (401 :: int) \<and> (401 :: int) < 300)"
    by (simp add: example_world_def response_401_def)
  have thtml: "transport (example_world response_html) ?req
                 = Response 200 [(''content-type'', ''text/html'')] body_html
               \<and> JSON_parse (example_world response_html) body_html
                 = Inl ''Unexpected token < in JSON at position 0''"
    by (rule conjI, simp add: example_world_def response_html_def, code_simp)
  have tnet: "transport (example_world (NetworkError ''connect ECONNREFUSED'')) ?req
                = NetworkError ''connect ECONNREFUSED''"
    by (simp add: example_world_def)
  have ttmo: "transport (example_world Timeout) ?req = Timeout"
    by (simp add: example_world_def)
  have 1: "fst (verifyApiKey (example_world response_ok) example_sdk) = True"
    using verifyApiKey_boolean_probe [of "example_world response_ok" example_sdk] ok by simp
  have 2: "fst (verifyApiKey (example_world response_401) example_sdk) = False"
    using verifyApiKey_boolean_probe [of "example_world response_401" example_sdk] t401 by blast
  have 3: "fst (verifyApiKey (example_world response_html) example_sdk) = False"
    using verifyApiKey_boolean_probe [of "example_world response_html" example_sdk] thtml by blast
  have 4: "fst (verifyApiKey (example_world (NetworkError ''connect ECONNREFUSED'')) example_sdk) = False"
    using verifyApiKey_boolean_probe [of "example_world (NetworkError ''connect ECONNREFUSED'')" example_sdk]
      tnet by blast
  have 5: "fst (verifyApiKey (example_world Timeout) example_sdk) = False"
    using verifyApiKey_boolean_probe [of "example_world Timeout" example_sdk] ttmo by blast
  show ?thesis using 1 2 3 4 5 by simp
qed

subsection \<open>What \<^verbatim>\<open>checkUser\<close> returns and throws\<close>



subsection \<open>\<^verbatim>\<open>checkUser\<close>\<close>




subsection \<open>The validation of a report\<close>

lemma check_required_first_missing:
  assumes "i < length fs"
    and "\<forall>j<i. \<exists>v. get_prop a (fs ! j) = Inr v \<and> truthy v"
    and "get_prop a (fs ! i) = Inr v" and "\<not> truthy v"
  shows "check_required a fs = Some (Error (fs ! i @ '' is required''))"
  using assms
proof (induction fs arbitrary: i)
  case Nil
  then show ?case by simp
next
  case (Cons f fs)
  show ?case
  proof (cases i)
    case 0
    with Cons.prems show ?thesis by simp
  next
    case (Suc k)
    have head: "\<exists>u. get_prop a f = Inr u \<and> truthy u"
      using Cons.prems(2) Suc by (auto dest: spec [of _ 0])
    have rest: "\<forall>j<k. \<exists>u. get_prop a (fs ! j) = Inr u \<and> truthy u"
      using Cons.prems(2) Suc by (auto dest: spec [of _ "Suc _"])
    have "check_required a fs = Some (Error (fs ! k @ '' is required''))"
      using Cons.IH [of k] Cons.prems Suc rest by simp
    with head Suc show ?thesis by auto
  qed
qed

lemma check_required_None:
  "check_required a fs = None \<longleftrightarrow> (\<forall>f\<in>set fs. \<exists>v. get_prop a f = Inr v \<and> truthy v)"
  by (induction fs) (auto split: sum.splits)

lemma array_includes_validActions:
  "array_includes validActions t \<longleftrightarrow>
     t \<in> {JStr ''ban'', JStr ''kick'', JStr ''timeout'', JStr ''mute'', JStr ''warn'', JStr ''unban'',
          JStr ''untimeout'', JStr ''unmute'', JStr ''remove_warning''}"
  by (cases t) (auto simp add: array_includes_def validActions_def)

lemma join_validActions:
  "join_with '', '' validActions =
     ''ban, kick, timeout, mute, warn, unban, untimeout, unmute, remove_warning''"
  by (simp add: validActions_def)


subsection \<open>\<^verbatim>\<open>reportAction\<close>\<close>

text \<open>
  C4. \<^verbatim>\<open>reportAction\<close> validates before it sends anything. When one of the five
  required fields is missing (or falsy) and the fields before it are there, it throws
  an Error naming that field, the first missing one, and the state is as before: no
  request was made. When the five fields are there and \<^verbatim>\<open>actionType\<close> is not one of
  the nine valid values, it throws the Error that lists the nine values, again with no
  request. Whatever else the report holds, an \<^verbatim>\<open>actionType\<close> outside the nine values
  ends in an exception before any request.
\<close>

theorem reportAction_validates_first:
  "(\<forall>i<length required.
      (\<forall>j<i. \<exists>v. get_prop actionData (required ! j) = Inr v \<and> truthy v)
      \<and> (\<exists>v. get_prop actionData (required ! i) = Inr v \<and> \<not> truthy v)
      \<longrightarrow> reportAction w actionData s = (Inl (Error (required ! i @ '' is required'')), s))
   \<and> ((\<forall>f\<in>set required. \<exists>v. get_prop actionData f = Inr v \<and> truthy v)
        \<and> get_prop actionData ''actionType'' = Inr t
        \<and> t \<notin> {JStr ''ban'', JStr ''kick'', JStr ''timeout'', JStr ''mute'', JStr ''warn'',
                 JStr ''unban'', JStr ''untimeout'', JStr ''unmute'', JStr ''remove_warning''}
        \<longrightarrow> reportAction w actionData s =
              (Inl (Error ''Invalid action type. Must be one of: ban, kick, timeout, mute, warn, unban, untimeout, unmute, remove_warning''), s))
   \<and> (get_prop actionData ''actionType'' = Inr t
        \<and> t \<notin> {JStr ''ban'', JStr ''kick'', JStr ''timeout'', JStr ''mute'', JStr ''warn'',
                 JStr ''unban'', JStr ''untimeout'', JStr ''unmute'', JStr ''remove_warning''}
        \<longrightarrow> (\<exists>e. reportAction w actionData s = (Inl e, s)))
   \<and> required = [''userId'', ''guildId'', ''actionType'', ''reason'', ''moderatorId'']"
proof -
  have missing: "reportAction w actionData s = (Inl (Error (required ! i @ '' is required'')), s)"
    if "i < length required"
      and "\<forall>j<i. \<exists>v. get_prop actionData (required ! j) = Inr v \<and> truthy v"
      and "get_prop actionData (required ! i) = Inr v" and "\<not> truthy v"
    for i v
    using check_required_first_missing [OF that] by (simp add: reportAction_def)
  have invalid: "reportAction w actionData s =
      (Inl (Error ''Invalid action type. Must be one of: ban, kick, timeout, mute, warn, unban, untimeout, unmute, remove_warning''), s)"
    if "\<forall>f\<in>set required. \<exists>v. get_prop actionData f = Inr v \<and> truthy v"
      and "get_prop actionData ''actionType'' = Inr t"
      and "\<not> array_includes validActions t"
    using that check_required_None [of actionData required]
    by (simp add: reportAction_def join_validActions)
  have before: "\<exists>e. reportAction w actionData s = (Inl e, s)"
    if "get_prop actionData ''actionType'' = Inr t" and "\<not> array_includes validActions t"
    using that by (cases "check_required actionData required") (simp_all add: reportAction_def)
  let ?outside = "t \<notin> {JStr ''ban'', JStr ''kick'', JStr ''timeout'', JStr ''mute'', JStr ''warn'',
                 JStr ''unban'', JStr ''untimeout'', JStr ''unmute'', JStr ''remove_warning''}"
  have outside: "\<not> array_includes validActions t" if "?outside"
    using that by (simp add: array_includes_validActions)
  have A: "\<forall>i<length required.
      (\<forall>j<i. \<exists>v. get_prop actionData (required ! j) = Inr v \<and> truthy v)
      \<and> (\<exists>v. get_prop actionData (required ! i) = Inr v \<and> \<not> truthy v)
      \<longrightarrow> reportAction w actionData s = (Inl (Error (required ! i @ '' is required'')), s)"
  proof (intro allI impI, elim conjE exE)
    fix i v
    assume "i < length required"
      and "\<forall>j<i. \<exists>v. get_prop actionData (required ! j) = Inr v \<and> truthy v"
      and "get_prop actionData (required ! i) = Inr v" and "\<not> truthy v"
    then show "reportAction w actionData s = (Inl (Error (required ! i @ '' is required'')), s)"
      by (rule missing)
  qed
  have B: "(\<forall>f\<in>set required. \<exists>v. get_prop actionData f = Inr v \<and> truthy v)
        \<and> get_prop actionData ''actionType'' = Inr t \<and> ?outside
        \<longrightarrow> reportAction w actionData s =
              (Inl (Error ''Invalid action type. Must be one of: ban, kick, timeout, mute, warn, unban, untimeout, unmute, remove_warning''), s)"
  proof (intro impI, elim conjE)
    assume "\<forall>f\<in>set required. \<exists>v. get_prop actionData f = Inr v \<and> truthy v"
      and "get_prop actionData ''actionType'' = Inr t" and "?outside"
    then show "reportAction w actionData s =
              (Inl (Error ''Invalid action type. Must be one of: ban, kick, timeout, mute, warn, unban, untimeout, unmute, remove_warning''), s)"
      by (intro invalid outside)
  qed
  have C: "get_prop actionData ''actionType'' = Inr t \<and> ?outside
        \<longrightarrow> (\<exists>e. reportAction w actionData s = (Inl e, s))"
  proof (intro impI, elim conjE)
    assume "get_prop actionData ''actionType'' = Inr t" and "?outside"
    then show "\<exists>e. reportAction w actionData s = (Inl e, s)"
      by (intro before outside)
  qed
  have D: "required = [''userId'', ''guildId'', ''actionType'', ''reason'', ''moderatorId'']"
    by (simp add: required_def)
  from A B C D show ?thesis by (intro conjI)
qed


theorem reportAction_validates_first_witness:
  "reportAction (example_world response_ok)
      (JObj [(''userId'', JStr ''123456789''), (''guildId'', JStr ''987654321''),
             (''actionType'', JStr ''ban''), (''moderatorId'', JStr ''111222333'')]) example_sdk
     = (Inl (Error ''reason is required''), example_sdk)
   \<and> reportAction (example_world response_ok)
      (JObj [(''userId'', JStr ''123456789''), (''guildId'', JStr ''987654321''),
             (''actionType'', JStr ''nuke''), (''reason'', JStr ''Spam''),
             (''moderatorId'', JStr ''111222333'')]) example_sdk
     = (Inl (Error ''Invalid action type. Must be one of: ban, kick, timeout, mute, warn, unban, untimeout, unmute, remove_warning''), example_sdk)"
proof -
  let ?no_reason = "JObj [(''userId'', JStr ''123456789''), (''guildId'', JStr ''987654321''),
             (''actionType'', JStr ''ban''), (''moderatorId'', JStr ''111222333'')]"
  let ?nuke = "JObj [(''userId'', JStr ''123456789''), (''guildId'', JStr ''987654321''),
             (''actionType'', JStr ''nuke''), (''reason'', JStr ''Spam''),
             (''moderatorId'', JStr ''111222333'')]"
  have len: "3 < length required" and r3: "required ! 3 = ''reason''"
    by (simp_all add: required_def)
  have before: "\<forall>j<3. \<exists>v. get_prop ?no_reason (required ! j) = Inr v \<and> truthy v"
  proof (intro allI impI)
    fix j :: nat
    assume "j < 3"
    then consider "j = 0" | "j = 1" | "j = 2" by linarith
    then show "\<exists>v. get_prop ?no_reason (required ! j) = Inr v \<and> truthy v"
      by cases (simp_all add: required_def own_property_def)
  qed
  have missing: "\<exists>v. get_prop ?no_reason (required ! 3) = Inr v \<and> \<not> truthy v"
    by (simp add: required_def own_property_def)
  have 1: "reportAction (example_world response_ok) ?no_reason example_sdk
             = (Inl (Error (required ! 3 @ '' is required'')), example_sdk)"
    using reportAction_validates_first [of ?no_reason "example_world response_ok" example_sdk]
      len before missing by simp
  have present: "\<forall>f\<in>set required. \<exists>v. get_prop ?nuke f = Inr v \<and> truthy v"
    by (simp add: required_def own_property_def)
  have ty: "get_prop ?nuke ''actionType'' = Inr (JStr ''nuke'')"
    by (simp add: own_property_def)
  have out: "JStr ''nuke'' \<notin> {JStr ''ban'', JStr ''kick'', JStr ''timeout'', JStr ''mute'', JStr ''warn'',
                 JStr ''unban'', JStr ''untimeout'', JStr ''unmute'', JStr ''remove_warning''}"
    by simp
  have 2: "reportAction (example_world response_ok) ?nuke example_sdk
     = (Inl (Error ''Invalid action type. Must be one of: ban, kick, timeout, mute, warn, unban, untimeout, unmute, remove_warning''), example_sdk)"
    using reportAction_validates_first
      [of ?nuke "example_world response_ok" example_sdk "JStr ''nuke''"] present ty out
    by simp
  show ?thesis using 1 2 by (simp add: r3)
qed

end
